theory Spec2Isabelle
  imports Main "HOL-Library.Sublist"
begin

section \<open>Normalized constraints and normal forms (SemaConcept.cpp, lines 474--577)\<close>

text \<open>
  A \<open>NormalizedConstraint\<close> is either atomic or a compound of two normalized
  constraints with a kind. The leaves are pointers to \<open>AtomicConstraint\<close> objects in the
  source; the normal-form builders and the subsumption engine never look inside a leaf, so
  the leaf type is a parameter here.
\<close>

datatype CompoundConstraintKind = CCK_Conjunction | CCK_Disjunction

datatype 'a NormalizedConstraint =
    Atomic 'a
  | Compound CompoundConstraintKind "'a NormalizedConstraint" "'a NormalizedConstraint"

type_synonym 'a NormalForm = "'a list list"

text \<open>
  The loop \<^verbatim>\<open>while (!R.empty()) L.push_back(std::move(R.pop_back_val()));\<close>
  of \<open>makeCNF\<close> and \<open>makeDNF\<close>: the last element of \<open>R\<close> is removed and appended to \<open>L\<close>
  until \<open>R\<close> is empty.
\<close>

function push_back_popped :: "'a list \<Rightarrow> 'a list \<Rightarrow> 'a list" where
  "push_back_popped L R =
     (if R = [] then L else push_back_popped (L @ [last R]) (butlast R))"
  by pat_completeness auto
termination
  by (relation "measure (\<lambda>(L, R). length R)") auto

declare push_back_popped.simps [simp del]

text \<open>
  The nested \<^verbatim>\<open>for\<close> loops of the distributing branch: for every clause of the left
  normal form, for every clause of the right normal form, the two clauses are copied one
  after the other into \<open>Combined\<close>, which is appended to \<open>Res\<close>.
\<close>

fun combine_inner :: "'a list \<Rightarrow> 'a NormalForm \<Rightarrow> 'a NormalForm \<Rightarrow> 'a NormalForm" where
  "combine_inner LClause [] Res = Res"
| "combine_inner LClause (RClause # RNF) Res =
     combine_inner LClause RNF (Res @ [LClause @ RClause])"

fun combine_outer :: "'a NormalForm \<Rightarrow> 'a NormalForm \<Rightarrow> 'a NormalForm \<Rightarrow> 'a NormalForm" where
  "combine_outer [] RNF Res = Res"
| "combine_outer (LClause # LNF) RNF Res =
     combine_outer LNF RNF (combine_inner LClause RNF Res)"

fun makeCNF :: "'a NormalizedConstraint \<Rightarrow> 'a NormalForm" where
  "makeCNF (Atomic a) = [[a]]"
| "makeCNF (Compound k L R) =
     (let LCNF = makeCNF L; RCNF = makeCNF R in
      if k = CCK_Conjunction then push_back_popped LCNF RCNF
      else combine_outer LCNF RCNF [])"

fun makeDNF :: "'a NormalizedConstraint \<Rightarrow> 'a NormalForm" where
  "makeDNF (Atomic a) = [[a]]"
| "makeDNF (Compound k L R) =
     (let LDNF = makeDNF L; RDNF = makeDNF R in
      if k = CCK_Disjunction then push_back_popped LDNF RDNF
      else combine_outer LDNF RDNF [])"

text \<open>
  \<open>subsumes\<close>: four nested loops. The two inner loops look for a pair of atoms accepted by
  the evaluator \<open>E\<close> and stop at the first one found; the two outer loops stop at the first
  pair of clauses for which none is found. The function returns its failure flag (always
  \<open>False\<close>) together with the out-parameter \<open>DoesSubsume\<close>.
\<close>

fun find_Qjb :: "('a \<Rightarrow> 'a \<Rightarrow> bool) \<Rightarrow> 'a \<Rightarrow> 'a list \<Rightarrow> bool" where
  "find_Qjb E Pia [] = False"
| "find_Qjb E Pia (Qjb # Qj) = (if E Pia Qjb then True else find_Qjb E Pia Qj)"

fun find_Pia :: "('a \<Rightarrow> 'a \<Rightarrow> bool) \<Rightarrow> 'a list \<Rightarrow> 'a list \<Rightarrow> bool" where
  "find_Pia E [] Qj = False"
| "find_Pia E (Pia # Pi) Qj = (if find_Qjb E Pia Qj then True else find_Pia E Pi Qj)"

fun for_Qj :: "('a \<Rightarrow> 'a \<Rightarrow> bool) \<Rightarrow> 'a list \<Rightarrow> 'a NormalForm \<Rightarrow> bool" where
  "for_Qj E Pi [] = True"
| "for_Qj E Pi (Qj # QCNF) = (if \<not> find_Pia E Pi Qj then False else for_Qj E Pi QCNF)"

fun for_Pi :: "('a \<Rightarrow> 'a \<Rightarrow> bool) \<Rightarrow> 'a NormalForm \<Rightarrow> 'a NormalForm \<Rightarrow> bool" where
  "for_Pi E [] QCNF = True"
| "for_Pi E (Pi # PDNF) QCNF = (if \<not> for_Qj E Pi QCNF then False else for_Pi E PDNF QCNF)"

definition subsumes ::
  "'a NormalizedConstraint \<Rightarrow> 'a NormalizedConstraint \<Rightarrow> ('a \<Rightarrow> 'a \<Rightarrow> bool) \<Rightarrow> bool \<times> bool" where
  "subsumes PNormalized QNormalized E =
     (let PDNF = makeDNF PNormalized; QCNF = makeCNF QNormalized in
      (False, for_Pi E PDNF QCNF))"

text \<open>
  The normal forms as the specification of the normal-form builder words them: an
  atomic constraint gives the single clause holding it; a compound whose kind matches
  the outer connective of the normal form gives the normal form of the left side
  followed by that of the right side; a compound of the other kind gives the Cartesian
  product of the clauses of the two sides, each pair concatenated.
\<close>

fun to_cnf :: "'a NormalizedConstraint \<Rightarrow> 'a NormalForm" where
  "to_cnf (Atomic a) = [[a]]"
| "to_cnf (Compound k L R) =
     (if k = CCK_Conjunction then to_cnf L @ to_cnf R
      else concat (map (\<lambda>l. map (\<lambda>r. l @ r) (to_cnf R)) (to_cnf L)))"

fun to_dnf :: "'a NormalizedConstraint \<Rightarrow> 'a NormalForm" where
  "to_dnf (Atomic a) = [[a]]"
| "to_dnf (Compound k L R) =
     (if k = CCK_Disjunction then to_dnf L @ to_dnf R
      else concat (map (\<lambda>l. map (\<lambda>r. l @ r) (to_dnf R)) (to_dnf L)))"

section \<open>Expressions, diagnostics and the collaborators of the engine\<close>

text \<open>
  Declarations and template arguments are identified by numbers (the source holds
  pointers to AST nodes). A multilevel template-argument list is a list of levels with the
  innermost level at the front; \<open>getInnermost\<close> asserts in the source that there is a
  level, and every use below is on a list the caller supplies with one, or is guarded by
  \<open>getNumLevels\<close>.
\<close>

type_synonym Decl = nat
type_synonym TemplateArgument = nat
type_synonym PartialDiagnosticAt = nat
type_synonym MultiLevelTemplateArgumentList = "TemplateArgument list list"

definition getNumLevels :: "MultiLevelTemplateArgumentList \<Rightarrow> nat" where
  "getNumLevels TemplateArgs = length TemplateArgs"

definition getInnermost :: "MultiLevelTemplateArgumentList \<Rightarrow> TemplateArgument list" where
  "getInnermost TemplateArgs = (case TemplateArgs of [] \<Rightarrow> [] | Innermost # _ \<Rightarrow> Innermost)"

datatype QualType = BoolTy | OtherTy nat

datatype Opcode = BO_LAnd | BO_LOr | BO_GE | BO_LE | BO_GT | BO_LT | BO_EQ | BO_NE | BO_Other nat

text \<open>
  The expression forms the engine tells apart with \<open>dyn_cast\<close>. A concept
  specialization carries the concept it names, the constraint expression of that concept
  (\<open>getNamedConcept()->getConstraintExpr()\<close>; a concept cannot refer to itself, so the
  expression is a finite tree) and its template arguments as written.
\<close>

datatype Expr =
    BinaryOperator Opcode Expr Expr
  | ParenExpr Expr
  | ExprWithCleanups Expr
  | ConceptSpecializationExpr Decl Expr "TemplateArgument list"
  | OtherExpr nat

datatype Diagnostic =
    err_non_bool_atomic_constraint Expr QualType
  | err_non_constant_constraint_expression Expr
  | evaluation_note PartialDiagnosticAt

text \<open>
  The second component of an \<open>UnsatisfiedConstraintRecord\<close>: a pointer union of the
  substituted expression that evaluated to false and of a substitution diagnostic.
\<close>

datatype Detail = SubstitutedExpr Expr | SubstitutionDiagnostic PartialDiagnosticAt

datatype ExprResult = ExprError | ExprEmpty | ExprUsable Expr

text \<open>
  \<open>NodeConstraintOwner\<close> and \<open>NodeTemplateArgs\<close> are the members
  \<open>ConstraintOwner\<close> and \<open>TemplateArgs\<close> under which a record is profiled in the
  satisfaction cache.
\<close>

record ConstraintSatisfaction =
  NodeConstraintOwner :: "Decl option"
  NodeTemplateArgs :: "TemplateArgument list"
  IsSatisfied :: bool
  Details :: "(Expr \<times> Detail) list"

text \<open>
  What the engine asks of the rest of the compiler. \<open>getType e\<close> stands for
  \<open>e->IgnoreParenImpCasts()->getType().getNonReferenceType().getUnqualifiedType()\<close>.
  \<open>EvaluateAsRValue\<close> gives the partial diagnostics of a failed constant evaluation
  or the integer value (the expression has type \<open>bool\<close> where it is called).
  \<open>SubstExpr\<close> gives the substituted expression (\<open>None\<close>: invalid) and the
  diagnostic an enclosing SFINAE trap caught, if any. \<open>CheckTemplateArgumentList\<close>
  gives its failure flag, the converted arguments and the instantiation-dependence
  flag. The three \<open>\<dots>Invalid\<close> fields say whether the corresponding
  \<open>InstantiatingTemplate\<close> frame is invalid after construction. \<open>DefaultIsSatisfied\<close>
  is the value of \<open>IsSatisfied\<close> in a freshly constructed record, and
  \<open>AtomicSubsumes\<close> is \<open>AtomicConstraint::subsumes\<close>; both are declared in a header.
\<close>

datatype AtomicConstraint = AtomicConstraint Expr "TemplateArgument list"

record Collaborators =
  isTypeDependent :: "Expr \<Rightarrow> bool"
  getType :: "Expr \<Rightarrow> QualType"
  isInstantiationDependent :: "Expr \<Rightarrow> bool"
  containsUnexpandedParameterPack :: "Expr \<Rightarrow> bool"
  EvaluateAsRValue :: "Expr \<Rightarrow> PartialDiagnosticAt list + int"
  SubstExpr :: "Expr \<Rightarrow> MultiLevelTemplateArgumentList \<Rightarrow> Expr option \<times> PartialDiagnosticAt option"
  CheckTemplateArgumentList :: "Decl \<Rightarrow> TemplateArgument list \<Rightarrow> bool \<times> TemplateArgument list \<times> bool"
  getTemplateInstantiationArgs :: "Decl \<Rightarrow> MultiLevelTemplateArgumentList"
  getCanonicalDecl :: "Decl \<Rightarrow> Decl"
  ProfileTemplateArgument :: "TemplateArgument \<Rightarrow> nat list"
  ConstraintsCheckInvalid :: "Decl \<Rightarrow> TemplateArgument list \<Rightarrow> bool"
  ConstraintSubstitutionInvalid :: "Decl \<Rightarrow> Expr \<Rightarrow> bool"
  DefaultIsSatisfied :: bool
  AtomicSubsumes :: "AtomicConstraint \<Rightarrow> AtomicConstraint \<Rightarrow> bool"

text \<open>
  The part of \<open>Sema\<close> the engine reads and writes: the diagnostics it emits, the two
  caches, and two logs that make the calls to \<open>SubstExpr\<close> and the look-ups in the
  satisfaction cache observable.
\<close>

record Sema =
  Diags :: "Diagnostic list"
  SubstExprCalls :: "(Expr \<times> MultiLevelTemplateArgumentList) list"
  SatisfactionCache :: "nat list \<rightharpoonup> ConstraintSatisfaction"
  SatisfactionCacheLookups :: "nat list list"
  SubsumptionCache :: "Decl \<times> Decl \<rightharpoonup> bool"

section \<open>Well-formedness of constraint expressions (lines 30--55)\<close>

text \<open>
  \<open>Culprit\<close> is an optional pointer to a variable holding an expression pointer:
  \<open>None\<close> is the null pointer, \<open>Some v\<close> points to a variable whose content is \<open>v\<close>.
  The recursive calls pass one argument only, so their \<open>Culprit\<close> is the null default,
  and the caller's variable is left as it is.
\<close>

definition CheckAtomicConstraintExpression ::
  "Collaborators \<Rightarrow> Expr \<Rightarrow> Expr option option \<Rightarrow> Sema \<Rightarrow> bool \<times> Expr option option \<times> Sema" where
  "CheckAtomicConstraintExpression C ConstraintExpression Culprit S =
     (if isTypeDependent C ConstraintExpression then (True, Culprit, S)
      else let Type = getType C ConstraintExpression in
        if Type \<noteq> BoolTy then
          (False,
           (case Culprit of None \<Rightarrow> None | Some _ \<Rightarrow> Some (Some ConstraintExpression)),
           S\<lparr>Diags := Diags S @ [err_non_bool_atomic_constraint ConstraintExpression Type]\<rparr>)
        else (True, Culprit, S))"

fun CheckConstraintExpression ::
  "Collaborators \<Rightarrow> Expr \<Rightarrow> Expr option option \<Rightarrow> Sema \<Rightarrow> bool \<times> Expr option option \<times> Sema" where
  "CheckConstraintExpression C (BinaryOperator Opc LHS RHS) Culprit S =
     (if Opc = BO_LAnd \<or> Opc = BO_LOr then
        (let (LOk, LCulprit, S1) = CheckConstraintExpression C LHS None S in
         if \<not> LOk then (False, Culprit, S1)
         else let (ROk, RCulprit, S2) = CheckConstraintExpression C RHS None S1 in
           (ROk, Culprit, S2))
      else CheckAtomicConstraintExpression C (BinaryOperator Opc LHS RHS) Culprit S)"
| "CheckConstraintExpression C ConstraintExpression Culprit S =
     CheckAtomicConstraintExpression C ConstraintExpression Culprit S"

section \<open>Satisfaction evaluation (lines 57--236)\<close>

text \<open>
  The state an evaluation works on: \<open>Sema\<close>, the \<open>Satisfaction\<close> record passed by
  reference, and the two optional out-flags (\<open>None\<close> is the null pointer).
\<close>

record EvalState =
  sema :: Sema
  Satisfaction :: ConstraintSatisfaction
  ContainsUnexpandedParameterPack :: "bool option"
  IsDependent :: "bool option"

text \<open>
  The tail of \<open>calculateConstraintSatisfaction\<close> (lines 98--129): the evaluator is
  called on the atomic expression; an invalid result is a hard failure, an empty one
  means that the evaluator has decided; otherwise the expression is constant-evaluated.
  The first component of the result is the returned \<open>bool\<close> (\<open>True\<close>: hard failure).
\<close>

definition evaluateAtomicConstraint ::
  "Collaborators \<Rightarrow> (Expr \<Rightarrow> EvalState \<Rightarrow> ExprResult \<times> EvalState) \<Rightarrow> Expr \<Rightarrow> EvalState
     \<Rightarrow> bool \<times> EvalState" where
  "evaluateAtomicConstraint C Evaluator ConstraintExpr st =
     (let (SubstitutedAtomicExpr, st1) = Evaluator ConstraintExpr st in
      case SubstitutedAtomicExpr of
        ExprError \<Rightarrow> (True, st1)
      | ExprEmpty \<Rightarrow> (False, st1)
      | ExprUsable SE \<Rightarrow>
          (case EvaluateAsRValue C SE of
             Inl EvaluationDiags \<Rightarrow>
               (True, st1\<lparr>sema := (sema st1)\<lparr>Diags := Diags (sema st1)
                   @ [err_non_constant_constraint_expression SE]
                   @ map evaluation_note EvaluationDiags\<rparr>\<rparr>)
           | Inr Val \<Rightarrow>
               (let Sat = (Satisfaction st1)\<lparr>IsSatisfied := (Val \<noteq> 0)\<rparr>;
                    Sat' = (if \<not> IsSatisfied Sat
                            then Sat\<lparr>Details := Details Sat @ [(ConstraintExpr, SubstitutedExpr SE)]\<rparr>
                            else Sat)
                in (False, st1\<lparr>Satisfaction := Sat'\<rparr>))))"

fun calculateConstraintSatisfaction ::
  "Collaborators \<Rightarrow> (Expr \<Rightarrow> EvalState \<Rightarrow> ExprResult \<times> EvalState) \<Rightarrow> Expr \<Rightarrow> EvalState
     \<Rightarrow> bool \<times> EvalState" where
  "calculateConstraintSatisfaction C Evaluator (BinaryOperator Opc LHS RHS) st =
     (if Opc = BO_LAnd \<or> Opc = BO_LOr then
        (let (Failed, st1) = calculateConstraintSatisfaction C Evaluator LHS st in
         if Failed then (True, st1)
         else let IsLHSSatisfied = IsSatisfied (Satisfaction st1) in
           if Opc = BO_LOr \<and> IsLHSSatisfied then (False, st1)
           else if Opc = BO_LAnd \<and> \<not> IsLHSSatisfied then (False, st1)
           else calculateConstraintSatisfaction C Evaluator RHS st1)
      else evaluateAtomicConstraint C Evaluator (BinaryOperator Opc LHS RHS) st)"
| "calculateConstraintSatisfaction C Evaluator (ParenExpr SubExpr) st =
     calculateConstraintSatisfaction C Evaluator SubExpr st"
| "calculateConstraintSatisfaction C Evaluator (ExprWithCleanups SubExpr) st =
     calculateConstraintSatisfaction C Evaluator SubExpr st"
| "calculateConstraintSatisfaction C Evaluator ConstraintExpr st =
     evaluateAtomicConstraint C Evaluator ConstraintExpr st"

text \<open>
  The evaluator of the substituting overload (the lambda of lines 141--209).
  \<open>CreatorInvalid\<close> says whether the instantiation frame made by \<open>Creator\<close> for the
  atomic expression is invalid. A trapped error is a substitution failure whatever the
  result of \<open>SubstExpr\<close>; an invalid result without a trapped error is a hard failure.
\<close>

definition SubstitutingEvaluator ::
  "Collaborators \<Rightarrow> (Expr \<Rightarrow> bool) \<Rightarrow> MultiLevelTemplateArgumentList \<Rightarrow> Expr \<Rightarrow> EvalState
     \<Rightarrow> ExprResult \<times> EvalState" where
  "SubstitutingEvaluator C CreatorInvalid TemplateArgs AtomicExpr st =
     (if CreatorInvalid AtomicExpr then (ExprError, st)
      else
        let (SubstitutedExpression, Trapped) = SubstExpr C AtomicExpr TemplateArgs;
            st1 = st\<lparr>sema := (sema st)\<lparr>SubstExprCalls :=
                       SubstExprCalls (sema st) @ [(AtomicExpr, TemplateArgs)]\<rparr>\<rparr>
        in case Trapped of
             Some SubstDiag \<Rightarrow>
               (ExprEmpty,
                st1\<lparr>Satisfaction := (Satisfaction st1)\<lparr>
                      Details := Details (Satisfaction st1)
                                   @ [(AtomicExpr, SubstitutionDiagnostic SubstDiag)],
                      IsSatisfied := False\<rparr>\<rparr>)
           | None \<Rightarrow>
               (case SubstitutedExpression of
                  None \<Rightarrow> (ExprError, st1)
                | Some SE \<Rightarrow>
                    (let st2 = st1\<lparr>ContainsUnexpandedParameterPack :=
                                 map_option (\<lambda>b. b \<or> containsUnexpandedParameterPack C SE)
                                   (ContainsUnexpandedParameterPack st1)\<rparr>
                     in if isInstantiationDependent C SE then
                          (ExprEmpty,
                           st2\<lparr>IsDependent := map_option (\<lambda>_. True) (IsDependent st2),
                               Satisfaction := (Satisfaction st2)\<lparr>IsSatisfied := True\<rparr>\<rparr>)
                        else
                          let (Ok, NoCulprit, S') =
                            CheckConstraintExpression C SE None (sema st2)
                          in if \<not> Ok then (ExprError, st2\<lparr>sema := S'\<rparr>)
                             else (ExprUsable SE, st2\<lparr>sema := S'\<rparr>))))"

definition calculateConstraintSatisfaction_Subst ::
  "Collaborators \<Rightarrow> (Expr \<Rightarrow> bool) \<Rightarrow> MultiLevelTemplateArgumentList \<Rightarrow> Expr \<Rightarrow> EvalState
     \<Rightarrow> bool \<times> EvalState" where
  "calculateConstraintSatisfaction_Subst C CreatorInvalid TemplateArgs ConstraintExpr st =
     calculateConstraintSatisfaction C (SubstitutingEvaluator C CreatorInvalid TemplateArgs)
       ConstraintExpr st"

text \<open>
  The static \<open>CheckConstraintSatisfaction\<close> (lines 212--236): the loop over the
  top-level constraint expressions stops at the first hard failure and at the first
  expression that is not satisfied.
\<close>

fun CheckConstraintSatisfaction_static ::
  "Collaborators \<Rightarrow> Expr list \<Rightarrow> MultiLevelTemplateArgumentList \<Rightarrow> (Expr \<Rightarrow> bool) \<Rightarrow> EvalState
     \<Rightarrow> bool \<times> EvalState" where
  "CheckConstraintSatisfaction_static C [] TemplateArgs CreatorInvalid st = (False, st)"
| "CheckConstraintSatisfaction_static C (ConstraintExpr # ConstraintExprs) TemplateArgs
       CreatorInvalid st =
     (let (Failed, st1) =
        calculateConstraintSatisfaction_Subst C CreatorInvalid TemplateArgs ConstraintExpr st in
      if Failed then (True, st1)
      else if \<not> IsSatisfied (Satisfaction st1) then (False, st1)
      else CheckConstraintSatisfaction_static C ConstraintExprs TemplateArgs CreatorInvalid st1)"


section \<open>Top-level satisfaction with the cache (lines 238--281, 1008--1024)\<close>

definition Profile :: "Collaborators \<Rightarrow> Decl \<Rightarrow> TemplateArgument list \<Rightarrow> nat list" where
  "Profile C ConstraintOwner Args =
     getCanonicalDecl C ConstraintOwner # concat (map (ProfileTemplateArgument C) Args)"

text \<open>
  \<open>Satisfaction0\<close> is the caller's record before the call; the result holds the returned
  \<open>bool\<close> (\<open>True\<close>: hard failure), \<open>Sema\<close> and the caller's record after the call. The
  assignment \<open>Satisfaction = *Cached\<close> copies every member. The node is inserted under
  its own profile, which is \<open>ID\<close>: the evaluation does not touch the two members it is
  computed from.
\<close>

definition Sema_CheckConstraintSatisfaction ::
  "Collaborators \<Rightarrow> Decl \<Rightarrow> Decl \<Rightarrow> Expr list \<Rightarrow> MultiLevelTemplateArgumentList \<Rightarrow> Sema
     \<Rightarrow> ConstraintSatisfaction \<Rightarrow> bool \<times> Sema \<times> ConstraintSatisfaction" where
  "Sema_CheckConstraintSatisfaction C ConstraintOwner Template ConstraintExprs TemplateArgs S
       Satisfaction0 =
     (if ConstraintExprs = [] then (False, S, Satisfaction0\<lparr>IsSatisfied := True\<rparr>)
      else
        let ID = Profile C ConstraintOwner (getInnermost TemplateArgs);
            S1 = S\<lparr>SatisfactionCacheLookups := SatisfactionCacheLookups S @ [ID]\<rparr>
        in case SatisfactionCache S1 ID of
             Some Cached \<Rightarrow> (False, S1, Cached)
           | None \<Rightarrow>
               if ConstraintsCheckInvalid C Template (getInnermost TemplateArgs)
               then (True, S1, Satisfaction0)
               else
                 let Cached0 = \<lparr>NodeConstraintOwner = Some ConstraintOwner,
                                NodeTemplateArgs = getInnermost TemplateArgs,
                                IsSatisfied = DefaultIsSatisfied C, Details = []\<rparr>;
                     (Failed, st) = CheckConstraintSatisfaction_static C ConstraintExprs
                        TemplateArgs (ConstraintSubstitutionInvalid C Template)
                        \<lparr>sema = S1, Satisfaction = Cached0,
                         ContainsUnexpandedParameterPack = None, IsDependent = None\<rparr>
                 in if Failed then (True, sema st, Satisfaction0)
                    else
                      let Cached = Satisfaction st;
                          S2 = (sema st)\<lparr>SatisfactionCache :=
                                  (SatisfactionCache (sema st))(ID \<mapsto> Cached)\<rparr>
                      in (False, S2, Cached))"

text \<open>
  The copy constructor of \<open>ConstraintSatisfaction\<close> (lines 1017--1024) initializes
  \<open>IsSatisfied\<close> from the other record and then loops over the new record's own
  details, which are empty, so that it copies no detail. The assignment of line 279 is
  not a construction and does not run it.
\<close>

fun copyRecords :: "(Expr \<times> Detail) list \<Rightarrow> ConstraintSatisfaction \<Rightarrow> ConstraintSatisfaction" where
  "copyRecords [] this = this"
| "copyRecords (Record # Records) this =
     copyRecords Records (this\<lparr>Details := Details this @ [Record]\<rparr>)"

definition ConstraintSatisfaction_copy :: "ConstraintSatisfaction \<Rightarrow> ConstraintSatisfaction" where
  "ConstraintSatisfaction_copy Other =
     (let this = \<lparr>NodeConstraintOwner = None, NodeTemplateArgs = [],
                  IsSatisfied = IsSatisfied Other, Details = []\<rparr>
      in copyRecords (Details this) this)"

section \<open>Normalization (lines 1053--1237)\<close>

text \<open>
  What the source does outside its defined behaviour is a value of its own: reading an
  empty \<open>llvm::Optional\<close>, a failed \<open>assert\<close>, a \<open>cast\<close> to the wrong class.
\<close>

datatype Crash = EmptyOptionalDereferenced | AssertionFailed | BadCast

definition makeAtomic ::
  "Expr \<Rightarrow> MultiLevelTemplateArgumentList \<Rightarrow> AtomicConstraint NormalizedConstraint" where
  "makeAtomic E ParameterMapping =
     Atomic (AtomicConstraint E
       (if getNumLevels ParameterMapping \<noteq> 0 then getInnermost ParameterMapping else []))"

fun fromConstraintExpr ::
  "Collaborators \<Rightarrow> Decl \<Rightarrow> Expr \<Rightarrow> MultiLevelTemplateArgumentList
     \<Rightarrow> Crash + AtomicConstraint NormalizedConstraint option" where
  "fromConstraintExpr C ConstrainedEntity (ParenExpr SubExpr) ParameterMapping =
     fromConstraintExpr C ConstrainedEntity SubExpr ParameterMapping"
| "fromConstraintExpr C ConstrainedEntity (BinaryOperator Opc L R) ParameterMapping =
     (if Opc = BO_LAnd \<or> Opc = BO_LOr then
        (case fromConstraintExpr C ConstrainedEntity L ParameterMapping of
           Inl crash \<Rightarrow> Inl crash
         | Inr None \<Rightarrow> Inr None
         | Inr (Some LHS) \<Rightarrow>
             (case fromConstraintExpr C ConstrainedEntity R ParameterMapping of
                Inl crash \<Rightarrow> Inl crash
              | Inr None \<Rightarrow> Inr None
              | Inr (Some RHS) \<Rightarrow>
                  Inr (Some (Compound
                    (if Opc = BO_LAnd then CCK_Conjunction else CCK_Disjunction) LHS RHS))))
      else Inr (Some (makeAtomic (BinaryOperator Opc L R) ParameterMapping)))"
| "fromConstraintExpr C ConstrainedEntity
       (ConceptSpecializationExpr NamedConcept ConstraintExpr Args) ParameterMapping =
     (case fst (SubstExpr C (ConceptSpecializationExpr NamedConcept ConstraintExpr Args)
                  ParameterMapping) of
        None \<Rightarrow> Inr None
      | Some (ConceptSpecializationExpr NamedConcept' ConstraintExpr' Mapping) \<Rightarrow>
          (let (Failure, Converted, InstantiationDependent) =
             CheckTemplateArgumentList C NamedConcept Mapping
           in if Failure then Inl AssertionFailed
              else if InstantiationDependent then
                Inr (Some (Atomic (AtomicConstraint
                  (ConceptSpecializationExpr NamedConcept ConstraintExpr Args) Converted)))
              else fromConstraintExpr C NamedConcept ConstraintExpr [Converted])
      | Some _ \<Rightarrow> Inl BadCast)"
| "fromConstraintExpr C ConstrainedEntity E ParameterMapping =
     Inr (Some (makeAtomic E ParameterMapping))"

text \<open>
  The loop of \<open>fromConstraintExprs\<close> from index 2 on (lines 1226--1235), with the
  conjunction built so far.
\<close>

fun foldConjunction ::
  "Collaborators \<Rightarrow> Decl \<Rightarrow> MultiLevelTemplateArgumentList
     \<Rightarrow> AtomicConstraint NormalizedConstraint \<Rightarrow> Expr list
     \<Rightarrow> Crash + AtomicConstraint NormalizedConstraint option" where
  "foldConjunction C ConstrainedEntity ParameterMapping Conjunction [] =
     Inr (Some Conjunction)"
| "foldConjunction C ConstrainedEntity ParameterMapping Conjunction (EI # Es) =
     (case fromConstraintExpr C ConstrainedEntity EI ParameterMapping of
        Inl crash \<Rightarrow> Inl crash
      | Inr None \<Rightarrow> Inr None
      | Inr (Some Next) \<Rightarrow>
          foldConjunction C ConstrainedEntity ParameterMapping
            (Compound CCK_Conjunction Conjunction Next) Es)"

text \<open>
  \<open>fromConstraintExprs\<close> (lines 1192--1237). \<open>Second\<close> is tested before the
  conjunction is built; \<open>First\<close> is read with \<open>*First\<close> without a test.
\<close>

definition fromConstraintExprs ::
  "Collaborators \<Rightarrow> Decl \<Rightarrow> Expr list \<Rightarrow> MultiLevelTemplateArgumentList
     \<Rightarrow> Crash + AtomicConstraint NormalizedConstraint option" where
  "fromConstraintExprs C ConstrainedEntity E ParameterMapping =
     (case E of
        [] \<Rightarrow> Inl AssertionFailed
      | E0 # Es \<Rightarrow>
          (case fromConstraintExpr C ConstrainedEntity E0 ParameterMapping of
             Inl crash \<Rightarrow> Inl crash
           | Inr First \<Rightarrow>
               (case Es of
                  [] \<Rightarrow> Inr First
                | E1 # Es' \<Rightarrow>
                    (case fromConstraintExpr C ConstrainedEntity E1 ParameterMapping of
                       Inl crash \<Rightarrow> Inl crash
                     | Inr None \<Rightarrow> Inr None
                     | Inr (Some Second) \<Rightarrow>
                         (case First of
                            None \<Rightarrow> Inl EmptyOptionalDereferenced
                          | Some First' \<Rightarrow>
                              foldConjunction C ConstrainedEntity ParameterMapping
                                (Compound CCK_Conjunction First' Second) Es')))))"

section \<open>At least as constrained (lines 579--646)\<close>

text \<open>
  \<open>Invalid\<close> is an optional pointer to a flag: \<open>None\<close> is the null pointer. The results
  hold the returned \<open>bool\<close> and the flag after the call.
\<close>

definition IsAtLeastAsConstrained_MLTAL ::
  "Collaborators \<Rightarrow> Decl \<Rightarrow> Expr list \<Rightarrow> MultiLevelTemplateArgumentList
     \<Rightarrow> Decl \<Rightarrow> Expr list \<Rightarrow> MultiLevelTemplateArgumentList \<Rightarrow> bool option
     \<Rightarrow> Crash + bool \<times> bool option" where
  "IsAtLeastAsConstrained_MLTAL C D1 AC1 MLTAL1 D2 AC2 MLTAL2 Invalid =
     (let Invalid0 = map_option (\<lambda>_. False) Invalid;
          InvalidSet = map_option (\<lambda>_. True) Invalid
      in if AC1 = [] then Inr (AC2 = [], Invalid0)
         else if AC2 = [] then Inr (True, Invalid0)
         else
           case fromConstraintExprs C D1 AC1 MLTAL1 of
             Inl crash \<Rightarrow> Inl crash
           | Inr None \<Rightarrow> Inr (False, InvalidSet)
           | Inr (Some Normalized1) \<Rightarrow>
               (case fromConstraintExprs C D2 AC2 MLTAL2 of
                  Inl crash \<Rightarrow> Inl crash
                | Inr None \<Rightarrow> Inr (False, InvalidSet)
                | Inr (Some Normalized2) \<Rightarrow>
                    (let (Failed, Subsumes) =
                       subsumes Normalized1 Normalized2 (AtomicSubsumes C)
                     in if Failed then Inr (False, InvalidSet)
                        else Inr (Subsumes, Invalid0))))"

definition try_emplace :: "('k \<rightharpoonup> 'v) \<Rightarrow> 'k \<Rightarrow> 'v \<Rightarrow> ('k \<rightharpoonup> 'v)" where
  "try_emplace m k v = (case m k of None \<Rightarrow> m(k \<mapsto> v) | Some _ \<Rightarrow> m)"

definition IsAtLeastAsConstrained ::
  "Collaborators \<Rightarrow> Decl \<Rightarrow> Expr list \<Rightarrow> Decl \<Rightarrow> Expr list \<Rightarrow> bool option \<Rightarrow> Sema
     \<Rightarrow> Crash + bool \<times> bool option \<times> Sema" where
  "IsAtLeastAsConstrained C D1 AC1 D2 AC2 Invalid S =
     (let Invalid0 = map_option (\<lambda>_. False) Invalid
      in if AC1 = [] then Inr (AC2 = [], Invalid0, S)
         else if AC2 = [] then Inr (True, Invalid0, S)
         else
           case SubsumptionCache S (D1, D2) of
             Some CacheEntry \<Rightarrow> Inr (CacheEntry, Invalid0, S)
           | None \<Rightarrow>
               (let MLTAL1 = getTemplateInstantiationArgs C D1;
                    MLTAL2 = getTemplateInstantiationArgs C D2
                in case IsAtLeastAsConstrained_MLTAL C D1 AC1 MLTAL1 D2 AC2 MLTAL2 Invalid0 of
                     Inl crash \<Rightarrow> Inl crash
                   | Inr (Subsumes, Invalid1) \<Rightarrow>
                       Inr (Subsumes, Invalid1,
                            S\<lparr>SubsumptionCache :=
                                try_emplace (SubsumptionCache S) (D1, D2) Subsumes\<rparr>)))"

section \<open>Source order of atomic constraints, and a small scenario\<close>

text \<open>
  The atomic constraint expressions of a constraint expression in source order, as
  \<open>calculateConstraintSatisfaction\<close> decomposes it: through \<open>&&\<close>, \<open>||\<close>,
  parentheses and cleanups.
\<close>

fun atomicConstraints :: "Expr \<Rightarrow> Expr list" where
  "atomicConstraints (BinaryOperator Opc LHS RHS) =
     (if Opc = BO_LAnd \<or> Opc = BO_LOr then atomicConstraints LHS @ atomicConstraints RHS
      else [BinaryOperator Opc LHS RHS])"
| "atomicConstraints (ParenExpr SubExpr) = atomicConstraints SubExpr"
| "atomicConstraints (ExprWithCleanups SubExpr) = atomicConstraints SubExpr"
| "atomicConstraints E = [E]"

text \<open>
  A concrete set of collaborators for evaluating the definitions on examples. Nothing is
  dependent; the atom \<open>OtherExpr 0\<close> has a type other than \<open>bool\<close>; \<open>OtherExpr 2\<close>
  evaluates to false and every other atom to true; substitution into \<open>OtherExpr 3\<close>
  fails with the trapped diagnostic \<open>7\<close>, substitution into a specialization of concept
  \<open>9\<close> is invalid, and every other substitution gives the expression back.
\<close>

definition scenario :: Collaborators where
  "scenario =
     \<lparr>isTypeDependent = (\<lambda>E. False),
      getType = (\<lambda>E. if E = OtherExpr 0 then OtherTy 0 else BoolTy),
      isInstantiationDependent = (\<lambda>E. False),
      containsUnexpandedParameterPack = (\<lambda>E. False),
      EvaluateAsRValue = (\<lambda>E. if E = OtherExpr 2 then Inr 0 else Inr 1),
      SubstExpr = (\<lambda>E TemplateArgs.
        case E of
          OtherExpr n \<Rightarrow> if n = 3 then (None, Some 7) else (Some E, None)
        | ConceptSpecializationExpr NamedConcept ConstraintExpr Args \<Rightarrow>
            if NamedConcept = 9 then (None, None) else (Some E, None)
        | _ \<Rightarrow> (Some E, None)),
      CheckTemplateArgumentList = (\<lambda>NamedConcept Args. (False, Args, False)),
      getTemplateInstantiationArgs = (\<lambda>D. []),
      getCanonicalDecl = (\<lambda>D. D),
      ProfileTemplateArgument = (\<lambda>Arg. [Arg]),
      ConstraintsCheckInvalid = (\<lambda>Template Args. False),
      ConstraintSubstitutionInvalid = (\<lambda>Template E. False),
      DefaultIsSatisfied = False,
      AtomicSubsumes = (\<lambda>A B. A = B)\<rparr>"

definition emptySema :: Sema where
  "emptySema =
     \<lparr>Diags = [], SubstExprCalls = [], SatisfactionCache = Map.empty,
      SatisfactionCacheLookups = [], SubsumptionCache = Map.empty\<rparr>"

definition emptySatisfaction :: ConstraintSatisfaction where
  "emptySatisfaction =
     \<lparr>NodeConstraintOwner = None, NodeTemplateArgs = [], IsSatisfied = False, Details = []\<rparr>"

definition startState :: EvalState where
  "startState =
     \<lparr>sema = emptySema, Satisfaction = emptySatisfaction,
      ContainsUnexpandedParameterPack = None, IsDependent = None\<rparr>"

text \<open>
  Between two states, the details have grown by a list \<open>new\<close> and the log of
  substitutions by the atoms \<open>log\<close>, where \<open>log\<close> is a subsequence of the given atoms
  and the clauses of \<open>new\<close> are a subsequence of \<open>log\<close>.
\<close>

abbreviation evaluatedInOrder ::
  "MultiLevelTemplateArgumentList \<Rightarrow> Expr list \<Rightarrow> EvalState \<Rightarrow> EvalState \<Rightarrow> bool" where
  "evaluatedInOrder TemplateArgs atoms st st' \<equiv>
     (\<exists>new log.
        Details (Satisfaction st') = Details (Satisfaction st) @ new
      \<and> SubstExprCalls (sema st') = SubstExprCalls (sema st) @ map (\<lambda>A. (A, TemplateArgs)) log
      \<and> subseq log atoms \<and> subseq (map fst new) log)"




section \<open>Properties of the normal-form builders\<close>

lemma push_back_popped_eq: "push_back_popped L R = L @ rev R"
proof (induction L R rule: push_back_popped.induct)
  case (1 L R)
  show ?case
  proof (cases "R = []")
    case True
    then show ?thesis by (subst push_back_popped.simps) simp
  next
    case False
    then have unfold: "push_back_popped L R = push_back_popped (L @ [last R]) (butlast R)"
      by (subst push_back_popped.simps) simp
    from False have "last R # rev (butlast R) = rev R"
      by (metis append_butlast_last_id rev_append singleton_rev_conv append_Cons append_Nil)
    with "1.IH" [OF False] unfold show ?thesis by simp
  qed
qed

lemma combine_inner_eq:
  "combine_inner l RNF Res = Res @ map (\<lambda>r. l @ r) RNF"
  by (induction RNF arbitrary: Res) simp_all

lemma combine_outer_eq:
  "combine_outer LNF RNF Res = Res @ concat (map (\<lambda>l. map (\<lambda>r. l @ r) RNF) LNF)"
  by (induction LNF arbitrary: Res) (simp_all add: combine_inner_eq)

text \<open>
  Claim C5, as amended. When the kind of a compound matches the outer connective of the
  normal form (conjunction for \<open>makeCNF\<close>, disjunction for \<open>makeDNF\<close>), the result is
  the left side's normal form followed by the clauses of the right side's normal form in
  reverse order. When the kind does not match, the result is the Cartesian product of
  the clauses, left clause first, in row-major order.
\<close>

theorem makeCNF_makeDNF_compound:
  "makeCNF (Compound CCK_Conjunction L R) = makeCNF L @ rev (makeCNF R)
   \<and> makeDNF (Compound CCK_Disjunction L R) = makeDNF L @ rev (makeDNF R)
   \<and> makeCNF (Compound CCK_Disjunction L R)
       = concat (map (\<lambda>l. map (\<lambda>r. l @ r) (makeCNF R)) (makeCNF L))
   \<and> makeDNF (Compound CCK_Conjunction L R)
       = concat (map (\<lambda>l. map (\<lambda>r. l @ r) (makeDNF R)) (makeDNF L))"
  by (simp add: push_back_popped_eq combine_outer_eq)

text \<open>
  Claim C5 as stated fails: the conjunction of \<open>0\<close> with the conjunction of \<open>1\<close> and \<open>2\<close>
  has the conjunctive normal form \<open>[[0], [2], [1]]\<close>, which is not the left side's normal
  form followed by the right side's.
\<close>

theorem makeCNF_keeps_order_counterexample:
  "makeCNF (Compound CCK_Conjunction (Atomic (0::nat))
              (Compound CCK_Conjunction (Atomic 1) (Atomic 2)))
     \<noteq> makeCNF (Atomic (0::nat)) @ makeCNF (Compound CCK_Conjunction (Atomic 1) (Atomic 2))"
  by (simp add: push_back_popped_eq)

section \<open>Properties of the subsumption engine\<close>

lemma find_Qjb_iff: "find_Qjb E Pia Qj \<longleftrightarrow> (\<exists>Qjb \<in> set Qj. E Pia Qjb)"
  by (induction Qj) auto

lemma find_Pia_iff: "find_Pia E Pi Qj \<longleftrightarrow> (\<exists>Pia \<in> set Pi. \<exists>Qjb \<in> set Qj. E Pia Qjb)"
  by (induction Pi) (auto simp: find_Qjb_iff)

lemma for_Qj_iff:
  "for_Qj E Pi QCNF \<longleftrightarrow> (\<forall>Qj \<in> set QCNF. \<exists>Pia \<in> set Pi. \<exists>Qjb \<in> set Qj. E Pia Qjb)"
  by (induction QCNF) (auto simp: find_Pia_iff)

lemma for_Pi_iff:
  "for_Pi E PDNF QCNF \<longleftrightarrow>
     (\<forall>Pi \<in> set PDNF. \<forall>Qj \<in> set QCNF. \<exists>Pia \<in> set Pi. \<exists>Qjb \<in> set Qj. E Pia Qjb)"
  by (induction PDNF) (auto simp: for_Qj_iff)

text \<open>
  The builders of the source yield the clauses of the specified normal forms: the
  reversed append changes their order only.
\<close>

lemma set_makeCNF: "set (makeCNF N) = set (to_cnf N)"
  by (induction N) (simp_all add: push_back_popped_eq combine_outer_eq)

lemma set_makeDNF: "set (makeDNF N) = set (to_dnf N)"
  by (induction N) (simp_all add: push_back_popped_eq combine_outer_eq)

text \<open>
  Claim C3. \<open>subsumes\<close> never fails, and it reports that \<open>P\<close> subsumes \<open>Q\<close> exactly when
  for every clause \<open>Pi\<close> of the disjunctive normal form of \<open>P\<close> and every clause \<open>Qj\<close> of
  the conjunctive normal form of \<open>Q\<close> there are atoms \<open>a\<close> in \<open>Pi\<close> and \<open>b\<close> in \<open>Qj\<close>
  with \<open>E a b\<close>. The normal forms are the specified ones, \<open>to_dnf\<close> and \<open>to_cnf\<close>.
\<close>

theorem subsumes_iff:
  "subsumes P Q E =
     (False, \<forall>Pi \<in> set (to_dnf P). \<forall>Qj \<in> set (to_cnf Q). \<exists>a \<in> set Pi. \<exists>b \<in> set Qj. E a b)"
  by (simp add: subsumes_def for_Pi_iff set_makeCNF set_makeDNF)

theorem subsumes_iff_witness:
  "subsumes (Compound CCK_Disjunction (Atomic (1::nat)) (Atomic 2)) (Atomic 3) (=) = (False, False)
   \<and> subsumes (Compound CCK_Disjunction (Atomic (1::nat)) (Atomic 2))
        (Compound CCK_Disjunction (Atomic 2) (Atomic 1)) (=) = (False, True)
   \<and> subsumes (Compound CCK_Conjunction (Atomic (1::nat)) (Atomic 2)) (Atomic 1) (=) = (False, True)
   \<and> subsumes (Atomic (1::nat)) (Compound CCK_Conjunction (Atomic 1) (Atomic 2)) (=)
       = (False, False)"
  using subsumes_iff [of "Compound CCK_Disjunction (Atomic (1::nat)) (Atomic 2)" "Atomic 3" "(=)"]
    subsumes_iff [of "Compound CCK_Disjunction (Atomic (1::nat)) (Atomic 2)"
      "Compound CCK_Disjunction (Atomic 2) (Atomic 1)" "(=)"]
    subsumes_iff [of "Compound CCK_Conjunction (Atomic (1::nat)) (Atomic 2)" "Atomic 1" "(=)"]
    subsumes_iff [of "Atomic (1::nat)" "Compound CCK_Conjunction (Atomic 1) (Atomic 2)" "(=)"]
  by simp

section \<open>Properties of the satisfaction evaluator\<close>

lemma CheckConstraintExpression_only_diags:
  "\<exists>ds. snd (snd (CheckConstraintExpression C E Culprit S)) = S\<lparr>Diags := Diags S @ ds\<rparr>"
proof (induction C E Culprit S rule: CheckConstraintExpression.induct)
  case (1 C Opc LHS RHS Culprit S)
  show ?case
  proof (cases "Opc = BO_LAnd \<or> Opc = BO_LOr")
    case False
    then show ?thesis
      by (auto simp: CheckAtomicConstraintExpression_def Let_def intro: exI [of _ "[]"])
  next
    case True
    obtain LOk LCulprit S1 where L: "CheckConstraintExpression C LHS None S = (LOk, LCulprit, S1)"
      by (cases "CheckConstraintExpression C LHS None S") auto
    from "1.IH"(1) [OF True] L obtain ds1 where S1: "S1 = S\<lparr>Diags := Diags S @ ds1\<rparr>"
      by auto
    show ?thesis
    proof (cases LOk)
      case False
      with True L S1 show ?thesis by auto
    next
      case LOk: True
      obtain ROk RCulprit S2 where R: "CheckConstraintExpression C RHS None S1 = (ROk, RCulprit, S2)"
        by (cases "CheckConstraintExpression C RHS None S1") auto
      from "1.IH"(2) [OF True L [symmetric] refl] LOk R obtain ds2
        where "S2 = S1\<lparr>Diags := Diags S1 @ ds2\<rparr>" by auto
      with S1 have "S2 = S\<lparr>Diags := Diags S @ (ds1 @ ds2)\<rparr>" by simp
      with True L LOk R show ?thesis by auto
    qed
  qed
qed (auto simp: CheckAtomicConstraintExpression_def Let_def intro: exI [of _ "[]"])

lemma CheckConstraintExpression_SubstExprCalls:
  "SubstExprCalls (snd (snd (CheckConstraintExpression C E Culprit S))) = SubstExprCalls S"
proof -
  obtain ds where "snd (snd (CheckConstraintExpression C E Culprit S)) = S\<lparr>Diags := Diags S @ ds\<rparr>"
    using CheckConstraintExpression_only_diags by blast
  then show ?thesis by simp
qed

text \<open>
  One call of the substituting evaluator appends at most one entry to the details and
  at most one call to the log, for the atomic expression it is called on.
\<close>

lemma SubstitutingEvaluator_step:
  assumes "SubstitutingEvaluator C CreatorInvalid TemplateArgs E st = (Result, st1)"
  shows "\<exists>new log.
           Details (Satisfaction st1) = Details (Satisfaction st) @ new
         \<and> SubstExprCalls (sema st1) = SubstExprCalls (sema st) @ map (\<lambda>A. (A, TemplateArgs)) log
         \<and> subseq log [E] \<and> subseq (map fst new) log
         \<and> (Result \<noteq> ExprEmpty \<longrightarrow> new = [])
         \<and> (Result \<noteq> ExprError \<longrightarrow> log = [E])"
proof (cases "CreatorInvalid E")
  case True
  with assms have "st1 = st" "Result = ExprError" by (simp_all add: SubstitutingEvaluator_def)
  then show ?thesis by (intro exI [of _ "[]"]) simp
next
  case False
  obtain SE Trapped where sub: "SubstExpr C E TemplateArgs = (SE, Trapped)"
    by (cases "SubstExpr C E TemplateArgs") auto
  show ?thesis
  proof (cases Trapped)
    case (Some SubstDiag)
    with assms False sub show ?thesis
      by (intro exI [of _ "[(E, SubstitutionDiagnostic SubstDiag)]"] exI [of _ "[E]"])
         (auto simp: SubstitutingEvaluator_def)
  next
    case None
    show ?thesis
    proof (cases SE)
      case N: None
      with assms False sub None show ?thesis
        by (intro exI [of _ "[]"] exI [of _ "[E]"]) (auto simp: SubstitutingEvaluator_def)
    next
      case (Some SE')
      with assms False sub None show ?thesis
        by (intro exI [of _ "[]"] exI [of _ "[E]"])
           (auto simp: SubstitutingEvaluator_def Let_def CheckConstraintExpression_SubstExprCalls
                 split: if_splits prod.splits
                 dest: arg_cong [where f = "\<lambda>x. SubstExprCalls (snd (snd x))"])
    qed
  qed
qed

lemma evaluatedInOrder_refl: "evaluatedInOrder TemplateArgs atoms st st"
  by (intro exI [of _ "[]"]) simp

lemma evaluatedInOrder_trans:
  assumes "evaluatedInOrder TemplateArgs atoms1 st st1"
    and "evaluatedInOrder TemplateArgs atoms2 st1 st2"
  shows "evaluatedInOrder TemplateArgs (atoms1 @ atoms2) st st2"
proof -
  from assms(1) obtain new1 log1 where 1:
    "Details (Satisfaction st1) = Details (Satisfaction st) @ new1"
    "SubstExprCalls (sema st1) = SubstExprCalls (sema st) @ map (\<lambda>A. (A, TemplateArgs)) log1"
    "subseq log1 atoms1" "subseq (map fst new1) log1" by blast
  from assms(2) obtain new2 log2 where 2:
    "Details (Satisfaction st2) = Details (Satisfaction st1) @ new2"
    "SubstExprCalls (sema st2) = SubstExprCalls (sema st1) @ map (\<lambda>A. (A, TemplateArgs)) log2"
    "subseq log2 atoms2" "subseq (map fst new2) log2" by blast
  have "subseq (log1 @ log2) (atoms1 @ atoms2)"
    using 1(3) 2(3) by (rule list_emb_append_mono)
  moreover have "subseq (map fst (new1 @ new2)) (log1 @ log2)"
    using list_emb_append_mono [OF 1(4) 2(4)] by simp
  ultimately show ?thesis
    using 1(1,2) 2(1,2) by (intro exI [of _ "new1 @ new2"] exI [of _ "log1 @ log2"]) simp
qed

lemma evaluatedInOrder_left:
  "evaluatedInOrder TemplateArgs atoms1 st st1 \<Longrightarrow>
   evaluatedInOrder TemplateArgs (atoms1 @ atoms2) st st1"
  using evaluatedInOrder_trans [OF _ evaluatedInOrder_refl [where atoms = atoms2]]
  by fastforce

lemma evaluateAtomicConstraint_inOrder:
  assumes "evaluateAtomicConstraint C (SubstitutingEvaluator C CreatorInvalid TemplateArgs) E st
             = (Failed, st')"
  shows "evaluatedInOrder TemplateArgs [E] st st'"
proof -
  obtain Result st1 where ev: "SubstitutingEvaluator C CreatorInvalid TemplateArgs E st = (Result, st1)"
    by (cases "SubstitutingEvaluator C CreatorInvalid TemplateArgs E st") auto
  from SubstitutingEvaluator_step [OF ev] obtain new log where step:
    "Details (Satisfaction st1) = Details (Satisfaction st) @ new"
    "SubstExprCalls (sema st1) = SubstExprCalls (sema st) @ map (\<lambda>A. (A, TemplateArgs)) log"
    "subseq log [E]" "subseq (map fst new) log"
    "Result \<noteq> ExprEmpty \<longrightarrow> new = []" "Result \<noteq> ExprError \<longrightarrow> log = [E]" by blast
  show ?thesis
  proof (cases Result)
    case ExprError
    with assms ev have "st' = st1" by (simp add: evaluateAtomicConstraint_def)
    with step show ?thesis by blast
  next
    case ExprEmpty
    with assms ev have "st' = st1" by (simp add: evaluateAtomicConstraint_def)
    with step show ?thesis by blast
  next
    case (ExprUsable SE)
    with step have new: "new = []" and log: "log = [E]" by simp_all
    show ?thesis
    proof (cases "EvaluateAsRValue C SE")
      case (Inl ds)
      with assms ev ExprUsable step(1,2) new log show ?thesis
        by (intro exI [of _ "[]"] exI [of _ "[E]"]) (auto simp: evaluateAtomicConstraint_def)
    next
      case (Inr Val)
      show ?thesis
      proof (cases "Val = 0")
        case True
        with assms ev ExprUsable step(1,2) new log Inr show ?thesis
          by (intro exI [of _ "[(E, SubstitutedExpr SE)]"] exI [of _ "[E]"])
             (auto simp: evaluateAtomicConstraint_def)
      next
        case False
        with assms ev ExprUsable step(1,2) new log Inr show ?thesis
          by (intro exI [of _ "[]"] exI [of _ "[E]"]) (auto simp: evaluateAtomicConstraint_def)
      qed
    qed
  qed
qed

lemma calculateConstraintSatisfaction_inOrder:
  "calculateConstraintSatisfaction C (SubstitutingEvaluator C CreatorInvalid TemplateArgs) E st
     = (Failed, st')
   \<Longrightarrow> evaluatedInOrder TemplateArgs (atomicConstraints E) st st'"
proof (induction E arbitrary: st Failed st')
  case (BinaryOperator Opc LHS RHS)
  let ?Ev = "SubstitutingEvaluator C CreatorInvalid TemplateArgs"
  show ?case
  proof (cases "Opc = BO_LAnd \<or> Opc = BO_LOr")
    case False
    with BinaryOperator.prems
    have "evaluateAtomicConstraint C ?Ev (BinaryOperator Opc LHS RHS) st = (Failed, st')"
      by simp
    from evaluateAtomicConstraint_inOrder [OF this] False show ?thesis by simp
  next
    case True
    obtain LFailed st1 where L: "calculateConstraintSatisfaction C ?Ev LHS st = (LFailed, st1)"
      by (cases "calculateConstraintSatisfaction C ?Ev LHS st") auto
    note IH1 = BinaryOperator.IH(1) [OF L]
    show ?thesis
    proof (cases "LFailed \<or> (Opc = BO_LOr \<and> IsSatisfied (Satisfaction st1))
                    \<or> (Opc = BO_LAnd \<and> \<not> IsSatisfied (Satisfaction st1))")
      case stop: True
      with BinaryOperator.prems True L have "st' = st1" by (auto simp: Let_def split: if_splits)
      with evaluatedInOrder_left [OF IH1, where ?atoms2.0 = "atomicConstraints RHS"] True
      show ?thesis by simp
    next
      case go: False
      with BinaryOperator.prems True L
      have R: "calculateConstraintSatisfaction C ?Ev RHS st1 = (Failed, st')"
        by (auto simp: Let_def split: if_splits)
      from evaluatedInOrder_trans [OF IH1 BinaryOperator.IH(2) [OF R]] True
      show ?thesis by simp
    qed
  qed
next
  case (ParenExpr E)
  then show ?case by simp
next
  case (ExprWithCleanups E)
  then show ?case by simp
next
  case (ConceptSpecializationExpr D E Args)
  from ConceptSpecializationExpr.prems
  have "evaluateAtomicConstraint C (SubstitutingEvaluator C CreatorInvalid TemplateArgs)
          (ConceptSpecializationExpr D E Args) st = (Failed, st')" by simp
  from evaluateAtomicConstraint_inOrder [OF this] show ?case by simp
next
  case (OtherExpr n)
  then have "evaluateAtomicConstraint C (SubstitutingEvaluator C CreatorInvalid TemplateArgs)
          (OtherExpr n) st = (Failed, st')" by simp
  from evaluateAtomicConstraint_inOrder [OF this] show ?case by simp
qed

text \<open>
  Claim C1. If the left operand \<open>A\<close> of \<open>A && B\<close> is evaluated without a hard failure
  and is not satisfied, the evaluation of \<open>A && B\<close> returns success with exactly the
  state the evaluation of \<open>A\<close> leaves (the satisfaction record, the diagnostics and the
  log of substitutions): \<open>B\<close> is neither substituted nor evaluated. The same holds for
  \<open>A || B\<close> when \<open>A\<close> is satisfied. For every expression, the atoms substituted are a
  subsequence of its atomic constraints in source order, and the details appended are,
  in the same order, entries for atoms that were substituted.
\<close>

theorem short_circuit_and_order:
  "(calculateConstraintSatisfaction_Subst C CreatorInvalid TemplateArgs A st = (False, st1)
      \<and> \<not> IsSatisfied (Satisfaction st1)
    \<longrightarrow> calculateConstraintSatisfaction_Subst C CreatorInvalid TemplateArgs
          (BinaryOperator BO_LAnd A B) st = (False, st1))
 \<and> (calculateConstraintSatisfaction_Subst C CreatorInvalid TemplateArgs A st = (False, st1)
      \<and> IsSatisfied (Satisfaction st1)
    \<longrightarrow> calculateConstraintSatisfaction_Subst C CreatorInvalid TemplateArgs
          (BinaryOperator BO_LOr A B) st = (False, st1))
 \<and> (calculateConstraintSatisfaction_Subst C CreatorInvalid TemplateArgs E st = (Failed, st')
    \<longrightarrow> (\<exists>new log.
           Details (Satisfaction st') = Details (Satisfaction st) @ new
         \<and> SubstExprCalls (sema st')
             = SubstExprCalls (sema st) @ map (\<lambda>A. (A, TemplateArgs)) log
         \<and> subseq log (atomicConstraints E) \<and> subseq (map fst new) log))"
  using calculateConstraintSatisfaction_inOrder [of C CreatorInvalid TemplateArgs E st Failed st']
  by (simp add: calculateConstraintSatisfaction_Subst_def)

theorem short_circuit_and_order_witness:
  "calculateConstraintSatisfaction_Subst scenario (\<lambda>E. False) [[5]]
     (BinaryOperator BO_LAnd (OtherExpr 2) (OtherExpr 3)) startState
   = (False, startState\<lparr>
        sema := emptySema\<lparr>SubstExprCalls := [(OtherExpr 2, [[5]])]\<rparr>,
        Satisfaction := emptySatisfaction\<lparr>
          Details := [(OtherExpr 2, SubstitutedExpr (OtherExpr 2))]\<rparr>\<rparr>)
 \<and> calculateConstraintSatisfaction_Subst scenario (\<lambda>E. False) [[5]]
     (BinaryOperator BO_LOr (OtherExpr 1) (OtherExpr 3)) startState
   = (False, startState\<lparr>
        sema := emptySema\<lparr>SubstExprCalls := [(OtherExpr 1, [[5]])]\<rparr>,
        Satisfaction := emptySatisfaction\<lparr>IsSatisfied := True\<rparr>\<rparr>)"
proof -
  let ?st2 = "startState\<lparr>
        sema := emptySema\<lparr>SubstExprCalls := [(OtherExpr 2, [[5]])]\<rparr>,
        Satisfaction := emptySatisfaction\<lparr>
          Details := [(OtherExpr 2, SubstitutedExpr (OtherExpr 2))]\<rparr>\<rparr>"
  let ?st1 = "startState\<lparr>
        sema := emptySema\<lparr>SubstExprCalls := [(OtherExpr 1, [[5]])]\<rparr>,
        Satisfaction := emptySatisfaction\<lparr>IsSatisfied := True\<rparr>\<rparr>"
  have A2: "calculateConstraintSatisfaction_Subst scenario (\<lambda>E. False) [[5]] (OtherExpr 2)
              startState = (False, ?st2)"
    by (simp add: calculateConstraintSatisfaction_Subst_def evaluateAtomicConstraint_def
        SubstitutingEvaluator_def CheckAtomicConstraintExpression_def scenario_def
        startState_def emptySema_def emptySatisfaction_def)
  have A1: "calculateConstraintSatisfaction_Subst scenario (\<lambda>E. False) [[5]] (OtherExpr 1)
              startState = (False, ?st1)"
    by (simp add: calculateConstraintSatisfaction_Subst_def evaluateAtomicConstraint_def
        SubstitutingEvaluator_def CheckAtomicConstraintExpression_def scenario_def
        startState_def emptySema_def emptySatisfaction_def)
  have N2: "\<not> IsSatisfied (Satisfaction ?st2)" by (simp add: emptySatisfaction_def)
  have S1: "IsSatisfied (Satisfaction ?st1)" by simp
  from short_circuit_and_order [of scenario "\<lambda>E. False" "[[5]]" "OtherExpr 2" startState ?st2
      "OtherExpr 3"] A2 N2
    short_circuit_and_order [of scenario "\<lambda>E. False" "[[5]]" "OtherExpr 1" startState ?st1
      "OtherExpr 3"] A1 S1
  show ?thesis by blast
qed

lemma atomicConstraints_not_Nil: "atomicConstraints E \<noteq> []"
  by (induction E) auto

lemma SubstitutingEvaluator_trapped:
  assumes "\<not> CreatorInvalid A" and "snd (SubstExpr C A TemplateArgs) = Some SubstDiag"
  shows "evaluateAtomicConstraint C (SubstitutingEvaluator C CreatorInvalid TemplateArgs) A st =
     (False,
      st\<lparr>sema := (sema st)\<lparr>SubstExprCalls := SubstExprCalls (sema st) @ [(A, TemplateArgs)]\<rparr>,
         Satisfaction := (Satisfaction st)\<lparr>
           Details := Details (Satisfaction st) @ [(A, SubstitutionDiagnostic SubstDiag)],
           IsSatisfied := False\<rparr>\<rparr>)"
  using assms
  by (cases "SubstExpr C A TemplateArgs")
     (simp add: evaluateAtomicConstraint_def SubstitutingEvaluator_def)

text \<open>
  Claim C2. Let \<open>E\<close> consist of a single atomic constraint expression \<open>A\<close> (possibly in
  parentheses or cleanups), let the instantiation frame for \<open>A\<close> be valid and let the
  substitution into \<open>A\<close> fail with the trapped diagnostic \<open>SubstDiag\<close>. Then the evaluation
  returns success; \<open>IsSatisfied\<close> is false; exactly one entry is appended to the details,
  the substitution diagnostic for \<open>A\<close>; and nothing else changes but the log of
  substitutions: no diagnostic is emitted.
\<close>

theorem substitution_failure_is_unsatisfied:
  assumes "atomicConstraints E = [A]"
    and "\<not> CreatorInvalid A"
    and "snd (SubstExpr C A TemplateArgs) = Some SubstDiag"
  shows "calculateConstraintSatisfaction_Subst C CreatorInvalid TemplateArgs E st =
     (False,
      st\<lparr>sema := (sema st)\<lparr>SubstExprCalls := SubstExprCalls (sema st) @ [(A, TemplateArgs)]\<rparr>,
         Satisfaction := (Satisfaction st)\<lparr>
           Details := Details (Satisfaction st) @ [(A, SubstitutionDiagnostic SubstDiag)],
           IsSatisfied := False\<rparr>\<rparr>)"
proof -
  note trapped = SubstitutingEvaluator_trapped
    [where CreatorInvalid = CreatorInvalid and A = A, OF assms(2,3)]
  from assms(1) show ?thesis
  proof (induction E)
  case (BinaryOperator Opc LHS RHS)
  show ?case
  proof (cases "Opc = BO_LAnd \<or> Opc = BO_LOr")
    case True
    with BinaryOperator.prems have "atomicConstraints LHS @ atomicConstraints RHS = [A]" by simp
    then have False
      using atomicConstraints_not_Nil [of LHS] atomicConstraints_not_Nil [of RHS]
      by (simp add: append_eq_Cons_conv)
    then show ?thesis ..
  next
    case False
    with BinaryOperator.prems have "A = BinaryOperator Opc LHS RHS" by simp
    with False trapped show ?thesis
      by (simp add: calculateConstraintSatisfaction_Subst_def)
  qed
next
  case (ParenExpr E)
  then show ?case by (simp add: calculateConstraintSatisfaction_Subst_def)
next
  case (ExprWithCleanups E)
  then show ?case by (simp add: calculateConstraintSatisfaction_Subst_def)
next
  case (ConceptSpecializationExpr D E Args)
  then have "A = ConceptSpecializationExpr D E Args" by simp
  with trapped show ?case
    by (simp add: calculateConstraintSatisfaction_Subst_def)
next
  case (OtherExpr n)
  then have "A = OtherExpr n" by simp
  with trapped show ?case
    by (simp add: calculateConstraintSatisfaction_Subst_def)
  qed
qed

theorem substitution_failure_is_unsatisfied_witness:
  "calculateConstraintSatisfaction_Subst scenario (\<lambda>E. False) [[5]] (ParenExpr (OtherExpr 3))
     startState =
     (False,
      startState\<lparr>sema := emptySema\<lparr>SubstExprCalls := [(OtherExpr 3, [[5]])]\<rparr>,
         Satisfaction := emptySatisfaction\<lparr>
           Details := [(OtherExpr 3, SubstitutionDiagnostic 7)]\<rparr>\<rparr>)"
proof -
  have 1: "atomicConstraints (ParenExpr (OtherExpr 3)) = [OtherExpr 3]" by simp
  have 3: "snd (SubstExpr scenario (OtherExpr 3) [[5]]) = Some 7" by (simp add: scenario_def)
  from substitution_failure_is_unsatisfied
    [where CreatorInvalid = "\<lambda>E. False" and st = startState, OF 1 _ 3]
  show ?thesis by (simp add: startState_def emptySema_def emptySatisfaction_def)
qed












section \<open>Properties of the well-formedness check\<close>

text \<open>
  Claim C8. The constraint expression \<open>A && B\<close>, where the atom \<open>A\<close> is not type-dependent
  and has a type other than \<open>bool\<close>, is checked with a culprit pointer supplied, whose
  variable is unset. The check returns false and emits exactly one error, at \<open>A\<close>; the
  culprit variable is still unset afterwards, where the claim has it set to \<open>A\<close>. Checked
  on its own, \<open>A\<close> is stored in the culprit variable.
\<close>

theorem CheckConstraintExpression_nested_culprit_lost:
  "CheckConstraintExpression scenario (BinaryOperator BO_LAnd (OtherExpr 0) (OtherExpr 1))
     (Some None) emptySema
   = (False, Some None,
      emptySema\<lparr>Diags := [err_non_bool_atomic_constraint (OtherExpr 0) (OtherTy 0)]\<rparr>)
   \<and> CheckConstraintExpression scenario (OtherExpr 0) (Some None) emptySema
   = (False, Some (Some (OtherExpr 0)),
      emptySema\<lparr>Diags := [err_non_bool_atomic_constraint (OtherExpr 0) (OtherTy 0)]\<rparr>)"
  by (simp add: CheckAtomicConstraintExpression_def scenario_def emptySema_def)

lemma CheckConstraintExpression_binary_keeps_culprit:
  "Opc = BO_LAnd \<or> Opc = BO_LOr \<Longrightarrow>
   fst (snd (CheckConstraintExpression C (BinaryOperator Opc LHS RHS) Culprit S)) = Culprit"
  by (simp add: Let_def split: prod.splits)

section \<open>Properties of normalization\<close>

text \<open>
  Claim C4. With two top-level constraint expressions of which the first does not
  normalize (the substitution into the concept specialization is invalid) and the second
  does, \<open>fromConstraintExprs\<close> reads the empty result of the first instead of returning
  \<open>None\<close>. With the failing expression in second place, or alone, it returns \<open>None\<close>.
\<close>

theorem fromConstraintExprs_reads_empty_First:
  "fromConstraintExpr scenario 0 (ConceptSpecializationExpr 9 (OtherExpr 1) [4]) [] = Inr None
   \<and> fromConstraintExprs scenario 0
        [ConceptSpecializationExpr 9 (OtherExpr 1) [4], OtherExpr 1] []
       = Inl EmptyOptionalDereferenced
   \<and> fromConstraintExprs scenario 0
        [OtherExpr 1, ConceptSpecializationExpr 9 (OtherExpr 1) [4]] [] = Inr None
   \<and> fromConstraintExprs scenario 0 [ConceptSpecializationExpr 9 (OtherExpr 1) [4]] []
       = Inr None"
  by (simp add: fromConstraintExprs_def makeAtomic_def scenario_def)

text \<open>
  Where every expression normalizes, the result is the left-associated conjunction.
\<close>

lemma foldConjunction_foldl:
  "list_all2 (\<lambda>E N. fromConstraintExpr C D E ParameterMapping = Inr (Some N)) Es Ns \<Longrightarrow>
   foldConjunction C D ParameterMapping Conjunction Es
     = Inr (Some (foldl (Compound CCK_Conjunction) Conjunction Ns))"
  by (induction Es Ns arbitrary: Conjunction rule: list_all2_induct) simp_all

lemma fromConstraintExprs_foldl:
  assumes "fromConstraintExpr C D E0 ParameterMapping = Inr (Some N0)"
    and "list_all2 (\<lambda>E N. fromConstraintExpr C D E ParameterMapping = Inr (Some N)) Es Ns"
  shows "fromConstraintExprs C D (E0 # Es) ParameterMapping
     = Inr (Some (foldl (Compound CCK_Conjunction) N0 Ns))"
proof (cases Es)
  case Nil
  with assms show ?thesis by (simp add: fromConstraintExprs_def)
next
  case (Cons E1 Es')
  with assms(2) obtain N1 Ns' where Ns: "Ns = N1 # Ns'"
    and 1: "fromConstraintExpr C D E1 ParameterMapping = Inr (Some N1)"
    and rest: "list_all2 (\<lambda>E N. fromConstraintExpr C D E ParameterMapping = Inr (Some N)) Es' Ns'"
    by (auto simp: list_all2_Cons1)
  from foldConjunction_foldl [OF rest] assms(1) 1 Cons Ns show ?thesis
    by (simp add: fromConstraintExprs_def)
qed

section \<open>Properties of the caches\<close>

lemma IsAtLeastAsConstrained_MLTAL_normalization_fails:
  assumes "AC1 \<noteq> []" and "AC2 \<noteq> []"
    and "fromConstraintExprs C D1 AC1 MLTAL1 = Inr None
       \<or> (\<exists>Normalized1. fromConstraintExprs C D1 AC1 MLTAL1 = Inr (Some Normalized1))
          \<and> fromConstraintExprs C D2 AC2 MLTAL2 = Inr None"
  shows "IsAtLeastAsConstrained_MLTAL C D1 AC1 MLTAL1 D2 AC2 MLTAL2 Invalid
     = Inr (False, map_option (\<lambda>_. True) Invalid)"
  using assms by (auto simp: IsAtLeastAsConstrained_MLTAL_def)

text \<open>
  Claim C9. Let \<open>AC1\<close> and \<open>AC2\<close> be non-empty, let the subsumption cache have no entry
  for \<open>(D1, D2)\<close>, and let the normalization of either side return \<open>None\<close>. Then
  \<open>IsAtLeastAsConstrained\<close> returns false with the invalid flag set, and the cache holds
  false for \<open>(D1, D2)\<close> afterwards. In every state whose cache holds false for
  \<open>(D1, D2)\<close>, a call for the same pair with non-empty constraint lists returns false
  with the invalid flag cleared and leaves the state as it is. No call of
  \<open>IsAtLeastAsConstrained\<close> changes an entry the cache holds, so this is so for every
  later call.
\<close>

theorem failed_comparison_is_cached:
  assumes "AC1 \<noteq> []" and "AC2 \<noteq> []"
    and "SubsumptionCache S (D1, D2) = None"
    and "fromConstraintExprs C D1 AC1 (getTemplateInstantiationArgs C D1) = Inr None
       \<or> (\<exists>Normalized1. fromConstraintExprs C D1 AC1 (getTemplateInstantiationArgs C D1)
                          = Inr (Some Normalized1))
          \<and> fromConstraintExprs C D2 AC2 (getTemplateInstantiationArgs C D2) = Inr None"
  shows "IsAtLeastAsConstrained C D1 AC1 D2 AC2 Invalid S
           = Inr (False, map_option (\<lambda>_. True) Invalid,
                  S\<lparr>SubsumptionCache := (SubsumptionCache S)((D1, D2) \<mapsto> False)\<rparr>)
       \<and> (\<forall>S' AC1' AC2' Invalid'.
            AC1' \<noteq> [] \<and> AC2' \<noteq> [] \<and> SubsumptionCache S' (D1, D2) = Some False
            \<longrightarrow> IsAtLeastAsConstrained C D1 AC1' D2 AC2' Invalid' S'
                  = Inr (False, map_option (\<lambda>_. False) Invalid', S'))
       \<and> (\<forall>S' Da ACa Db ACb Invalid' Result Invalid'' S'' Key Entry.
            IsAtLeastAsConstrained C Da ACa Db ACb Invalid' S' = Inr (Result, Invalid'', S'')
            \<and> SubsumptionCache S' Key = Some Entry
            \<longrightarrow> SubsumptionCache S'' Key = Some Entry)"
proof (intro conjI allI impI)
  from IsAtLeastAsConstrained_MLTAL_normalization_fails [OF assms(1,2,4)] assms(1,2,3)
  show "IsAtLeastAsConstrained C D1 AC1 D2 AC2 Invalid S
           = Inr (False, map_option (\<lambda>_. True) Invalid,
                  S\<lparr>SubsumptionCache := (SubsumptionCache S)((D1, D2) \<mapsto> False)\<rparr>)"
    by (simp add: IsAtLeastAsConstrained_def try_emplace_def option.map_comp comp_def)
next
  fix S' :: Sema and AC1' AC2' :: "Expr list" and Invalid' :: "bool option"
  assume "AC1' \<noteq> [] \<and> AC2' \<noteq> [] \<and> SubsumptionCache S' (D1, D2) = Some False"
  then show "IsAtLeastAsConstrained C D1 AC1' D2 AC2' Invalid' S'
                  = Inr (False, map_option (\<lambda>_. False) Invalid', S')"
    by (simp add: IsAtLeastAsConstrained_def)
next
  fix S' S'' :: Sema and Da Db :: Decl and ACa ACb :: "Expr list"
    and Invalid' Invalid'' :: "bool option" and Result Entry :: bool and Key :: "Decl \<times> Decl"
  assume "IsAtLeastAsConstrained C Da ACa Db ACb Invalid' S' = Inr (Result, Invalid'', S'')
            \<and> SubsumptionCache S' Key = Some Entry"
  then show "SubsumptionCache S'' Key = Some Entry"
    by (auto simp: IsAtLeastAsConstrained_def try_emplace_def Let_def
             split: if_splits option.splits sum.splits)
qed

theorem failed_comparison_is_cached_witness:
  "IsAtLeastAsConstrained scenario 1 [ConceptSpecializationExpr 9 (OtherExpr 1) [4]]
      2 [OtherExpr 1] (Some False) emptySema
     = Inr (False, Some True, emptySema\<lparr>SubsumptionCache := [(1, 2) \<mapsto> False]\<rparr>)
   \<and> IsAtLeastAsConstrained scenario 1 [OtherExpr 1] 2 [OtherExpr 1] (Some True)
        (emptySema\<lparr>SubsumptionCache := [(1, 2) \<mapsto> False]\<rparr>)
     = Inr (False, Some False, emptySema\<lparr>SubsumptionCache := [(1, 2) \<mapsto> False]\<rparr>)"
proof -
  let ?AC1 = "[ConceptSpecializationExpr 9 (OtherExpr 1) [4]]"
  let ?S1 = "emptySema\<lparr>SubsumptionCache := [(1, 2) \<mapsto> False]\<rparr>"
  have 1: "?AC1 \<noteq> []" and 2: "[OtherExpr 1] \<noteq> []" by simp_all
  have 3: "SubsumptionCache emptySema (1, 2) = None" by (simp add: emptySema_def)
  have 4: "fromConstraintExprs scenario 1 ?AC1 (getTemplateInstantiationArgs scenario 1) = Inr None
       \<or> (\<exists>Normalized1. fromConstraintExprs scenario 1 ?AC1
              (getTemplateInstantiationArgs scenario 1) = Inr (Some Normalized1))
          \<and> fromConstraintExprs scenario 2 [OtherExpr 1]
              (getTemplateInstantiationArgs scenario 2) = Inr None"
    by (simp add: fromConstraintExprs_def scenario_def)
  have 5: "SubsumptionCache ?S1 (1, 2) = Some False" by simp
  from failed_comparison_is_cached [OF 1 2 3 4, of "Some False"] 2 5
  show ?thesis by (simp add: emptySema_def)
qed

text \<open>
  Claim C10. With an empty list of constraint expressions the cached overload returns
  success; the caller's record has \<open>IsSatisfied\<close> true and is otherwise as it was; and
  \<open>Sema\<close> is returned as it was: the satisfaction cache is not modified, and no look-up
  is logged.
\<close>

theorem no_constraints_is_satisfied_without_cache:
  "Sema_CheckConstraintSatisfaction C ConstraintOwner Template [] TemplateArgs S Satisfaction0
     = (False, S, Satisfaction0\<lparr>IsSatisfied := True\<rparr>)"
  by (simp add: Sema_CheckConstraintSatisfaction_def)


lemma ConstraintSatisfaction_copy_drops_details:
  "Details (ConstraintSatisfaction_copy Other) = []
   \<and> IsSatisfied (ConstraintSatisfaction_copy Other) = IsSatisfied Other"
  by (simp add: ConstraintSatisfaction_copy_def)



end
